theory Spec2Isabelle
  imports Complex_Main "HOL-Library.Monad_Syntax"
begin

section \<open>Wave spectrum estimation: the C sources as HOL functions\<close>

text \<open>
  The program is C over \<^verbatim>\<open>float\<close> buffers on the heap. The embedding keeps the
  structure of the sources (\<^verbatim>\<open>utils.c\<close>, \<^verbatim>\<open>signalProcessing.c\<close>,
  \<^verbatim>\<open>waveEstimation.c\<close>, \<^verbatim>\<open>main.c\<close>) and makes explicit what C leaves to the
  platform:
  \<^item> the type \<^verbatim>\<open>float\<close> is a type variable \<open>'f\<close>; its arithmetic, the functions of
    \<^verbatim>\<open>math.h\<close>, the uncertainty library and the allocator are the fields of a record
    \<open>'f platform\<close> that every function takes. A theorem proved for every platform holds
    for IEEE-754 single precision in particular;
  \<^item> \<^verbatim>\<open>size_t\<close> is \<open>nat\<close> below \<open>2 ^ 64\<close>, with the wrap-around written out at the
    multiplications that can reach it;
  \<^item> a heap block is a list; a pointer into a block is the block with an offset; every
    read and write is checked against the length of the block, and an access outside
    the block (undefined behaviour in C) gives \<open>None\<close>, as does a call that never
    returns;
  \<^item> the heap itself is the log of the allocation requests made so far. A request for
    more than \<^verbatim>\<open>SIZE_MAX\<close> bytes is refused, as C requires; whether memory is
    available for any other request, and what an uninitialised cell holds, is decided by
    the platform from that log.
\<close>

subsection \<open>The platform\<close>

datatype ctype = Float | ComplexT

datatype request = Calloc nat ctype | Reallocarray nat ctype

type_synonym heap = "request list"

record 'f platform =
  fzero :: 'f  \<comment> \<open>the constant \<^verbatim>\<open>0\<close> as a float; also what \<^verbatim>\<open>calloc\<close> leaves in a cell\<close>
  INFINITY :: 'f
  fadd :: "'f \<Rightarrow> 'f \<Rightarrow> 'f"
  fsub :: "'f \<Rightarrow> 'f \<Rightarrow> 'f"
  fmul :: "'f \<Rightarrow> 'f \<Rightarrow> 'f"
  fdiv :: "'f \<Rightarrow> 'f \<Rightarrow> 'f"
  isZero :: "'f \<Rightarrow> bool"  \<comment> \<open>the comparison \<^verbatim>\<open>x == 0\<close>\<close>
  ofNat :: "nat \<Rightarrow> 'f"  \<comment> \<open>conversion of an integer to float\<close>
  sqrtf :: "'f \<Rightarrow> 'f"
  cosf :: "'f \<Rightarrow> 'f"
  sinf :: "'f \<Rightarrow> 'f"
  twiddleAngle :: "nat \<Rightarrow> nat \<Rightarrow> 'f"
    \<comment> \<open>\<^verbatim>\<open>-2.0 * PI * k / N\<close>, computed in double and converted to float\<close>
  minusHalf :: "'f \<Rightarrow> 'f \<Rightarrow> 'f"  \<comment> \<open>\<^verbatim>\<open>value - uncertainty / 2.0\<close>, converted to float\<close>
  plusHalf :: "'f \<Rightarrow> 'f \<Rightarrow> 'f"  \<comment> \<open>\<^verbatim>\<open>value + uncertainty / 2.0\<close>, converted to float\<close>
  libUncertainFloatUniformDist :: "'f \<Rightarrow> 'f \<Rightarrow> 'f"
  available :: "heap \<Rightarrow> request \<Rightarrow> bool"
    \<comment> \<open>does the allocator have memory for this request, after these earlier ones\<close>
  indeterminate :: "heap \<Rightarrow> nat \<Rightarrow> 'f"
    \<comment> \<open>what the cell at this index of a block holds when nothing initialised it\<close>

definition SIZE_MAX :: nat where
  "SIZE_MAX = 2 ^ 64 - 1"

subsection \<open>Memory accesses and counted loops\<close>

definition rd :: "'a list \<Rightarrow> nat \<Rightarrow> 'a option" where
  "rd xs i = (if i < length xs then Some (xs ! i) else None)"

definition wr :: "'a list \<Rightarrow> nat \<Rightarrow> 'a \<Rightarrow> 'a list option" where
  "wr xs i v = (if i < length xs then Some (xs[i := v]) else None)"

text \<open>\<^verbatim>\<open>for (size_t i = 0; i < N; i++) body\<close>, where the body may fail.\<close>

definition for_loop :: "nat \<Rightarrow> (nat \<Rightarrow> 's \<Rightarrow> 's option) \<Rightarrow> 's \<Rightarrow> 's option" where
  "for_loop N body s = fold (\<lambda>i m. Option.bind m (body i)) [0..<N] (Some s)"

text \<open>
  The bytes that a request asks for: \<^verbatim>\<open>sizeof(float)\<close> is \<open>4\<close> (IEEE-754 single
  precision), and \<^verbatim>\<open>Complex\<close> is a struct of two floats. A request is granted when its
  byte count fits \<^verbatim>\<open>size_t\<close> and the allocator has the memory: \<^verbatim>\<open>calloc\<close> and
  \<^verbatim>\<open>reallocarray\<close> return \<^verbatim>\<open>NULL\<close> when \<^verbatim>\<open>nmemb * size\<close> overflows.
\<close>

fun sizeof :: "ctype \<Rightarrow> nat" where
  "sizeof Float = 4"
| "sizeof ComplexT = 8"

fun bytes :: "request \<Rightarrow> nat" where
  "bytes (Calloc nmemb ty) = nmemb * sizeof ty"
| "bytes (Reallocarray nmemb ty) = nmemb * sizeof ty"

definition granted :: "'f platform \<Rightarrow> heap \<Rightarrow> request \<Rightarrow> bool" where
  "granted pf h r \<longleftrightarrow> bytes r \<le> SIZE_MAX \<and> available pf h r"

text \<open>
  \<^verbatim>\<open>calloc(nmemb, size)\<close>: a block of \<open>nmemb\<close> cells, each all-bits-zero, or \<^verbatim>\<open>NULL\<close>.
  \<^verbatim>\<open>reallocarray(ptr, nmemb, size)\<close>: a block of \<open>nmemb\<close> cells that keeps the cells of the
  old block and leaves the others uninitialised, or \<^verbatim>\<open>NULL\<close>; \<^verbatim>\<open>ptr = NULL\<close> is the
  empty old block.
\<close>

definition calloc :: "'f platform \<Rightarrow> nat \<Rightarrow> ctype \<Rightarrow> 'a \<Rightarrow> heap \<Rightarrow> 'a list option \<times> heap" where
  "calloc pf nmemb ty z h =
     (if granted pf h (Calloc nmemb ty) then Some (replicate nmemb z) else None,
      h @ [Calloc nmemb ty])"

definition reallocarray :: "'f platform \<Rightarrow> 'f list option \<Rightarrow> nat \<Rightarrow> heap \<Rightarrow> 'f list option \<times> heap" where
  "reallocarray pf ptr nmemb h =
     (let old = (case ptr of None \<Rightarrow> [] | Some blk \<Rightarrow> blk)
      in (if granted pf h (Reallocarray nmemb Float)
          then Some (take nmemb old @ map (indeterminate pf h) [length old..<nmemb])
          else None,
          h @ [Reallocarray nmemb Float]))"

subsection \<open>\<^verbatim>\<open>signalProcessing.c\<close>: rounding up to a power of two\<close>

text \<open>
  The loop \<^verbatim>\<open>while (returnValue < arg) returnValue *= 2;\<close> on \<^verbatim>\<open>size_t\<close>. Started
  at \<open>0\<close> it would never end, so it is a partial function and its termination from \<open>1\<close>
  is proved below.
\<close>

partial_function (option) roundUpLoop :: "nat \<Rightarrow> nat \<Rightarrow> nat option" where
  "roundUpLoop returnValue arg =
     (if returnValue < arg then roundUpLoop ((returnValue * 2) mod 2 ^ 64) arg
      else Some returnValue)"

definition roundUpToNextHighestPowerOfTwo :: "nat \<Rightarrow> nat option" where
  "roundUpToNextHighestPowerOfTwo arg =
     (let maximumArgument = SIZE_MAX div 2 + 1
      in if arg \<ge> maximumArgument then Some 0 else roundUpLoop 1 arg)"

subsection \<open>\<^verbatim>\<open>utils.c\<close>: buffers on the heap\<close>

record 'f Buffer =
  heapPointer :: "'f list option"  \<comment> \<open>\<open>None\<close> is \<^verbatim>\<open>NULL\<close>\<close>
  bufSize :: nat  \<comment> \<open>the field \<^verbatim>\<open>size\<close>\<close>

text \<open>
  The cells that can be reached through a pointer (none through \<^verbatim>\<open>NULL\<close>), and the
  pointer after the cells behind it were written.
\<close>

definition cells :: "'a list option \<Rightarrow> 'a list" where
  "cells ptr = (case ptr of None \<Rightarrow> [] | Some blk \<Rightarrow> blk)"

definition withCells :: "'a list option \<Rightarrow> 'a list \<Rightarrow> 'a list option" where
  "withCells ptr blk = (case ptr of None \<Rightarrow> None | Some _ \<Rightarrow> Some blk)"

definition emptyBuffer :: "'f Buffer" where
  "emptyBuffer = \<lparr>heapPointer = None, bufSize = 0\<rparr>"

definition subtractMean :: "'f platform \<Rightarrow> 'f Buffer \<Rightarrow> 'f Buffer option" where
  "subtractMean pf buf = do {
     total \<leftarrow> for_loop (bufSize buf)
       (\<lambda>i total. do { v \<leftarrow> rd (cells (heapPointer buf)) i; Some (fadd pf total v) })
       (fzero pf);
     let mean = fdiv pf total (ofNat pf (bufSize buf));
     blk \<leftarrow> for_loop (bufSize buf)
       (\<lambda>i blk. do { v \<leftarrow> rd blk i; wr blk i (fsub pf v mean) })
       (cells (heapPointer buf));
     Some (buf\<lparr>heapPointer := withCells (heapPointer buf) blk\<rparr>)
   }"

text \<open>
  A CSV file is what \<^verbatim>\<open>fopen\<close> and \<^verbatim>\<open>fscanf\<close> make of it: \<open>None\<close> when it cannot
  be opened, otherwise the floats that \<^verbatim>\<open>fscanf(stream, "%f,", ...)\<close> converts, in
  order. \<^verbatim>\<open>determineBufferSize\<close> counts them and \<^verbatim>\<open>getFloatsFromCSV\<close> stores them.
\<close>

definition readFloatsFromFileToHeapBuffer ::
  "'f platform \<Rightarrow> 'f list option \<Rightarrow> 'f Buffer \<Rightarrow> heap \<Rightarrow> int \<times> 'f Buffer \<times> heap" where
  "readFloatsFromFileToHeapBuffer pf file buf h =
     (case file of
        None \<Rightarrow> (1, buf, h)
      | Some values \<Rightarrow>
          (let buf1 = buf\<lparr>bufSize := length values\<rparr>
           in if bufSize buf1 = 0 then (1, buf1, h)
              else (case calloc pf (bufSize buf1) Float (fzero pf) h of
                      (None, h1) \<Rightarrow> (1, buf1\<lparr>heapPointer := None\<rparr>, h1)
                    | (Some blk, h1) \<Rightarrow> (0, buf1\<lparr>heapPointer := Some values\<rparr>, h1))))"

definition extendHeapBuffer ::
  "'f platform \<Rightarrow> 'f Buffer \<Rightarrow> nat \<Rightarrow> heap \<Rightarrow> int \<times> 'f Buffer \<times> heap" where
  "extendHeapBuffer pf buf newSize h =
     (if newSize \<le> bufSize buf then (0, buf, h)
      else (case reallocarray pf (heapPointer buf) newSize h of
              (None, h1) \<Rightarrow> (1, buf\<lparr>heapPointer := None, bufSize := 0\<rparr>, h1)
            | (Some blk, h1) \<Rightarrow> (0, buf\<lparr>heapPointer := Some blk, bufSize := newSize\<rparr>, h1)))"

subsection \<open>\<^verbatim>\<open>utils.c\<close>: double integration\<close>

record 'f State =
  position :: 'f
  speed :: 'f

text \<open>
  Modelled from the spec: \<^verbatim>\<open>integrate\<close> is declared in \<^verbatim>\<open>integrate.h\<close>, which is not
  among the sources. The spec gives the recurrence
  \<^verbatim>\<open>speed[i] = speed[i-1] + dt * (accel[i-1] + accel[i]) / 2\<close> and
  \<^verbatim>\<open>position[i] = position[i-1] + dt * (speed[i-1] + speed[i]) / 2\<close>; the argument
  order is that of the call in \<^verbatim>\<open>numericalIntegration\<close>.
\<close>

definition integrate :: "'f platform \<Rightarrow> 'f State \<Rightarrow> 'f \<Rightarrow> 'f \<Rightarrow> 'f \<Rightarrow> 'f State" where
  "integrate pf oldState newAcceleration oldAcceleration dt =
     (let newSpeed = fadd pf (speed oldState)
            (fdiv pf (fmul pf dt (fadd pf oldAcceleration newAcceleration)) (ofNat pf 2));
          newPosition = fadd pf (position oldState)
            (fdiv pf (fmul pf dt (fadd pf (speed oldState) newSpeed)) (ofNat pf 2))
      in \<lparr>position = newPosition, speed = newSpeed\<rparr>)"

text \<open>
  One iteration of the loop of \<^verbatim>\<open>numericalIntegration\<close>, on the block and the
  variables \<^verbatim>\<open>oldState\<close> and \<^verbatim>\<open>oldAcceleration\<close> that live across iterations.
\<close>

definition integrationStep ::
  "'f platform \<Rightarrow> 'f \<Rightarrow> nat \<Rightarrow> 'f list \<times> 'f State \<times> 'f \<Rightarrow> ('f list \<times> 'f State \<times> 'f) option" where
  "integrationStep pf dt i s =
     (case s of (blk, oldState, oldAcceleration) \<Rightarrow> do {
        newAcceleration \<leftarrow> rd blk i;
        let newState = integrate pf oldState newAcceleration oldAcceleration dt;
        oldAcceleration' \<leftarrow> rd blk i;
        blk' \<leftarrow> wr blk i (position newState);
        Some (blk', \<lparr>position = position newState, speed = speed newState\<rparr>, oldAcceleration')
      })"

definition integrationLoop ::
  "'f platform \<Rightarrow> 'f \<Rightarrow> nat \<Rightarrow> 'f list \<Rightarrow> ('f list \<times> 'f State \<times> 'f) option" where
  "integrationLoop pf dt n blk =
     for_loop n (integrationStep pf dt)
       (blk, \<lparr>position = fzero pf, speed = fzero pf\<rparr>, fzero pf)"

text \<open>
  \<^verbatim>\<open>numericalIntegration\<close> starts from rest: \<^verbatim>\<open>oldState\<close> and \<^verbatim>\<open>oldAcceleration\<close> are \<open>0\<close>.
  It reads \<^verbatim>\<open>heapPointer[0]\<close> into \<^verbatim>\<open>newAcceleration\<close> before the loop, whatever the size
  of the buffer; the first iteration assigns \<^verbatim>\<open>newAcceleration\<close> again before using it.
\<close>

definition numericalIntegration :: "'f platform \<Rightarrow> 'f Buffer \<Rightarrow> 'f \<Rightarrow> 'f Buffer option" where
  "numericalIntegration pf timeSeriesData dt = do {
     newAcceleration \<leftarrow> rd (cells (heapPointer timeSeriesData)) 0;
     (blk, oldState, oldAcceleration) \<leftarrow>
       integrationLoop pf dt (bufSize timeSeriesData) (cells (heapPointer timeSeriesData));
     subtractMean pf
       (timeSeriesData\<lparr>heapPointer := withCells (heapPointer timeSeriesData) blk\<rparr>)
   }"

text \<open>
  The states that the loop of \<^verbatim>\<open>numericalIntegration\<close> goes through, written as the
  recurrence over the samples: each state is \<^verbatim>\<open>integrate\<close> of the state before it, the
  sample, and the sample before it; \<open>previous\<close> and \<open>prior\<close> are the state and the
  acceleration before the first sample. It is used to state what the loop computes.
\<close>

fun trapezoidStates :: "'f platform \<Rightarrow> 'f \<Rightarrow> 'f State \<Rightarrow> 'f \<Rightarrow> 'f list \<Rightarrow> 'f State list" where
  "trapezoidStates pf dt previous prior [] = []"
| "trapezoidStates pf dt previous prior (accel # rest) =
     (let current = integrate pf previous accel prior dt
      in current # trapezoidStates pf dt current accel rest)"

subsection \<open>\<^verbatim>\<open>signalProcessing.c\<close>: the transform\<close>

record 'f Complex =
  realPart :: 'f  \<comment> \<open>the field \<^verbatim>\<open>real\<close>\<close>
  imaginary :: 'f

definition complexAdd :: "'f platform \<Rightarrow> 'f Complex \<Rightarrow> 'f Complex \<Rightarrow> 'f Complex" where
  "complexAdd pf A B =
     \<lparr>realPart = fadd pf (realPart A) (realPart B),
      imaginary = fadd pf (imaginary A) (imaginary B)\<rparr>"

definition complexSubtract :: "'f platform \<Rightarrow> 'f Complex \<Rightarrow> 'f Complex \<Rightarrow> 'f Complex" where
  "complexSubtract pf A B =
     \<lparr>realPart = fsub pf (realPart A) (realPart B),
      imaginary = fsub pf (imaginary A) (imaginary B)\<rparr>"

definition complexMultiply :: "'f platform \<Rightarrow> 'f Complex \<Rightarrow> 'f Complex \<Rightarrow> 'f Complex" where
  "complexMultiply pf A B =
     (let a = realPart A; b = imaginary A; c = realPart B; d = imaginary B
      in \<lparr>realPart = fsub pf (fmul pf a c) (fmul pf b d),
          imaginary = fadd pf (fmul pf a d) (fmul pf b c)\<rparr>)"

definition complexExponent :: "'f platform \<Rightarrow> 'f \<Rightarrow> 'f Complex" where
  "complexExponent pf angle = \<lparr>realPart = cosf pf angle, imaginary = sinf pf angle\<rparr>"

definition complexMagnitude :: "'f platform \<Rightarrow> 'f Complex \<Rightarrow> 'f" where
  "complexMagnitude pf A =
     (let a = realPart A; b = imaginary A
      in sqrtf pf (fadd pf (fmul pf a a) (fmul pf b b)))"

text \<open>
  The body of the loop over \<open>k\<close> in \<^verbatim>\<open>dit2FFT\<close>. The pointer \<open>F\<close> of the source is the
  block \<open>F\<close> with the offset \<open>fo\<close>.
\<close>

definition butterfly ::
  "'f platform \<Rightarrow> nat \<Rightarrow> nat \<Rightarrow> nat \<Rightarrow> 'f Complex list \<Rightarrow> 'f Complex list option" where
  "butterfly pf fo N k F = do {
     p \<leftarrow> rd F (fo + k);
     let temp = complexExponent pf (twiddleAngle pf k N);
     upper \<leftarrow> rd F (fo + (k + N div 2));
     let q = complexMultiply pf temp upper;
     F1 \<leftarrow> wr F (fo + k) (complexAdd pf p q);
     wr F1 (fo + (k + N div 2)) (complexSubtract pf p q)
   }"

text \<open>
  \<^verbatim>\<open>dit2FFT(F, x, N, stride)\<close>, with \<open>fo\<close> and \<open>xo\<close> the offsets of the two pointers in
  their blocks. With \<open>N = 0\<close> the source recurses on \<open>N / 2 = 0\<close> for ever.
\<close>

partial_function (option) dit2FFT ::
  "'f platform \<Rightarrow> 'f Complex list \<Rightarrow> nat \<Rightarrow> 'f Complex list \<Rightarrow> nat \<Rightarrow> nat \<Rightarrow> nat
   \<Rightarrow> 'f Complex list option" where
  "dit2FFT pf F fo x xo N stride =
     (if N = 1 then do {
        x0 \<leftarrow> rd x xo;
        wr F fo \<lparr>realPart = realPart x0, imaginary = imaginary x0\<rparr>
      }
      else do {
        F1 \<leftarrow> dit2FFT pf F fo x xo (N div 2) ((2 * stride) mod 2 ^ 64);
        F2 \<leftarrow> dit2FFT pf F1 (fo + N div 2) x (xo + stride) (N div 2) ((2 * stride) mod 2 ^ 64);
        for_loop (N div 2) (butterfly pf fo N) F2
      })"

definition periodogram :: "'f platform \<Rightarrow> 'f list \<Rightarrow> 'f list \<Rightarrow> nat \<Rightarrow> 'f list option" where
  "periodogram pf S F N =
     for_loop N (\<lambda>i S. do { f \<leftarrow> rd F i; wr S i (fmul pf f f) }) S"

definition fft ::
  "'f platform \<Rightarrow> 'f list \<Rightarrow> 'f list \<Rightarrow> nat \<Rightarrow> heap \<Rightarrow> (int \<times> 'f list \<times> heap) option" where
  "fft pf F x N h = do {
     spectrumSize \<leftarrow> roundUpToNextHighestPowerOfTwo N;
     let czero = \<lparr>realPart = fzero pf, imaginary = fzero pf\<rparr>;
     let (paddedX, h1) = calloc pf spectrumSize ComplexT czero h;
     let (Fcplx, h2) = calloc pf spectrumSize ComplexT czero h1;
     if paddedX = None \<or> Fcplx = None then Some (1, F, h2)
     else do {
       paddedX1 \<leftarrow> for_loop N
         (\<lambda>i blk. do { xi \<leftarrow> rd x i; c \<leftarrow> rd blk i; wr blk i (c\<lparr>realPart := xi\<rparr>) })
         (cells paddedX);
       Fcplx1 \<leftarrow> dit2FFT pf (cells Fcplx) 0 paddedX1 0 spectrumSize 1;
       F1 \<leftarrow> for_loop spectrumSize
         (\<lambda>i F. do { c \<leftarrow> rd Fcplx1 i; wr F i (complexMagnitude pf c) })
         F;
       Some (0, F1, h2)
     }
   }"

definition calculatePowerSpectrum ::
  "'f platform \<Rightarrow> 'f list \<Rightarrow> 'f list \<Rightarrow> nat \<Rightarrow> heap \<Rightarrow> (int \<times> 'f list \<times> heap) option" where
  "calculatePowerSpectrum pf powerSpectrum timeSeriesData N h = do {
     spectrumSize \<leftarrow> roundUpToNextHighestPowerOfTwo N;
     let (frequencySpectrum, h1) = calloc pf spectrumSize Float (fzero pf) h;
     if frequencySpectrum = None then Some (1, powerSpectrum, h1)
     else do {
       (rc, frequencySpectrum1, h2) \<leftarrow> fft pf (cells frequencySpectrum) timeSeriesData N h1;
       if rc \<noteq> 0 then Some (1, powerSpectrum, h2)
       else do {
         powerSpectrum1 \<leftarrow> periodogram pf powerSpectrum frequencySpectrum1 spectrumSize;
         Some (0, powerSpectrum1, h2)
       }
     }
   }"

subsection \<open>\<^verbatim>\<open>waveEstimation.c\<close>\<close>

definition elementWiseDivide ::
  "'f platform \<Rightarrow> 'f list \<Rightarrow> 'f list \<Rightarrow> 'f list \<Rightarrow> nat \<Rightarrow> 'f list option" where
  "elementWiseDivide pf result numerator denominator N =
     for_loop N
       (\<lambda>i result. do {
          d \<leftarrow> rd denominator i;
          if isZero pf d then wr result i (INFINITY pf)
          else do { n \<leftarrow> rd numerator i; wr result i (fdiv pf n d) }
        })
       result"

definition calculateRAO ::
  "'f platform \<Rightarrow> 'f list \<Rightarrow> 'f list \<Rightarrow> 'f list \<Rightarrow> nat \<Rightarrow> 'f list option" where
  "calculateRAO pf RAO heaveSpectrum waveSpectrum N =
     elementWiseDivide pf RAO heaveSpectrum waveSpectrum N"

definition calculateWaveEnergySpectrum ::
  "'f platform \<Rightarrow> 'f list \<Rightarrow> 'f list \<Rightarrow> 'f list \<Rightarrow> nat \<Rightarrow> 'f list option" where
  "calculateWaveEnergySpectrum pf waveSpectrum heaveSpectrum RAO N =
     elementWiseDivide pf waveSpectrum heaveSpectrum RAO N"

subsection \<open>\<^verbatim>\<open>main.c\<close>: the two stages of the pipeline\<close>

text \<open>
  Both functions return \<^verbatim>\<open>returnValue\<close>: \<open>None\<close> is \<open>0\<close>, and \<open>Some e\<close> is \<open>1\<close> together
  with the branch that set it (each prints its own message). The buffers that a
  function receives by pointer are returned with the value they have at the label
  \<^verbatim>\<open>RETURN\<close>. \<^verbatim>\<open>freeHeapBuffer\<close> on the local buffers makes no request to the allocator
  and has no counterpart here.
\<close>

datatype error =
    CouldNotReadHeaveDisplacement
  | CouldNotReadWaveElevation
  | LengthMismatch
  | OutOfMemory
  | HeavePowerSpectrumFailed
  | WavePowerSpectrumFailed
  | CouldNotReadHeaveAcceleration
  | TooManyValues
  | HeaveMotionPowerSpectrumFailed

definition applyUncertainty :: "'f platform \<Rightarrow> 'f Buffer \<Rightarrow> 'f \<Rightarrow> 'f Buffer option" where
  "applyUncertainty pf buffer uncertainty = do {
     blk \<leftarrow> for_loop (bufSize buffer)
       (\<lambda>i blk. do {
          v \<leftarrow> rd blk i;
          let lowerBound = minusHalf pf v uncertainty;
          let upperBound = plusHalf pf v uncertainty;
          wr blk i (libUncertainFloatUniformDist pf lowerBound upperBound)
        })
       (cells (heapPointer buffer));
     Some (buffer\<lparr>heapPointer := withCells (heapPointer buffer) blk\<rparr>)
   }"

definition characteriseRAO ::
  "'f platform \<Rightarrow> 'f Buffer \<Rightarrow> 'f list option \<Rightarrow> 'f list option \<Rightarrow> 'f \<Rightarrow> 'f \<Rightarrow> 'f \<Rightarrow> heap
   \<Rightarrow> (error option \<times> 'f Buffer \<times> heap) option" where
  "characteriseRAO pf RAOBuffer heaveDisplacementFile waveElevationFile
       heaveMeasurementUncertainty waveElevationMeasurementUncertainty measurementPeriod h =
     (case readFloatsFromFileToHeapBuffer pf heaveDisplacementFile emptyBuffer h of
        (rc1, heaveDisplacementBuffer, h1) \<Rightarrow>
     if rc1 \<noteq> 0 then Some (Some CouldNotReadHeaveDisplacement, RAOBuffer, h1)
     else case readFloatsFromFileToHeapBuffer pf waveElevationFile emptyBuffer h1 of
        (rc2, waveElevationBuffer, h2) \<Rightarrow>
     if rc2 \<noteq> 0 then Some (Some CouldNotReadWaveElevation, RAOBuffer, h2)
     else if bufSize heaveDisplacementBuffer \<noteq> bufSize waveElevationBuffer
     then Some (Some LengthMismatch, RAOBuffer, h2)
     else do {
       spectrumBufferSize \<leftarrow> roundUpToNextHighestPowerOfTwo (bufSize heaveDisplacementBuffer);
       case extendHeapBuffer pf emptyBuffer spectrumBufferSize h2 of
          (rc3, heaveSpectrumBuffer, h3) \<Rightarrow>
       if rc3 \<noteq> 0 then Some (Some OutOfMemory, RAOBuffer, h3)
       else case extendHeapBuffer pf emptyBuffer spectrumBufferSize h3 of
          (rc4, waveSpectrumBuffer, h4) \<Rightarrow>
       if rc4 \<noteq> 0 then Some (Some OutOfMemory, RAOBuffer, h4)
       else case extendHeapBuffer pf RAOBuffer spectrumBufferSize h4 of
          (rc5, RAOBuffer1, h5) \<Rightarrow>
       if rc5 \<noteq> 0 then Some (Some OutOfMemory, RAOBuffer1, h5)
       else do {
         heaveDisplacementBuffer1 \<leftarrow>
           applyUncertainty pf heaveDisplacementBuffer heaveMeasurementUncertainty;
         waveElevationBuffer1 \<leftarrow>
           applyUncertainty pf waveElevationBuffer waveElevationMeasurementUncertainty;
         (rc6, heaveSpectrum, h6) \<leftarrow>
           calculatePowerSpectrum pf (cells (heapPointer heaveSpectrumBuffer))
             (cells (heapPointer heaveDisplacementBuffer1)) (bufSize heaveDisplacementBuffer1) h5;
         if rc6 \<noteq> 0 then Some (Some HeavePowerSpectrumFailed, RAOBuffer1, h6)
         else do {
           (rc7, waveSpectrum, h7) \<leftarrow>
             calculatePowerSpectrum pf (cells (heapPointer waveSpectrumBuffer))
               (cells (heapPointer waveElevationBuffer1)) (bufSize waveElevationBuffer1) h6;
           if rc7 \<noteq> 0 then Some (Some WavePowerSpectrumFailed, RAOBuffer1, h7)
           else do {
             RAO \<leftarrow> calculateRAO pf (cells (heapPointer RAOBuffer1)) heaveSpectrum waveSpectrum
               (bufSize RAOBuffer1);
             Some (None, RAOBuffer1\<lparr>heapPointer := withCells (heapPointer RAOBuffer1) RAO\<rparr>, h7)
           }
         }
       }
     })"

definition estimateWaveSpectrum ::
  "'f platform \<Rightarrow> 'f Buffer \<Rightarrow> 'f Buffer \<Rightarrow> 'f list option \<Rightarrow> 'f \<Rightarrow> 'f \<Rightarrow> heap
   \<Rightarrow> (error option \<times> 'f Buffer \<times> heap) option" where
  "estimateWaveSpectrum pf waveSpectrumEstimateBuffer RAOBuffer heaveAccelerationFile
       accelerometerResolution accelerometerTimestep h =
     (case readFloatsFromFileToHeapBuffer pf heaveAccelerationFile emptyBuffer h of
        (rc1, oceanHeaveBuffer, h1) \<Rightarrow>
     if rc1 \<noteq> 0 then Some (Some CouldNotReadHeaveAcceleration, waveSpectrumEstimateBuffer, h1)
     else if bufSize oceanHeaveBuffer > SIZE_MAX div 2
     then Some (Some TooManyValues, waveSpectrumEstimateBuffer, h1)
     else do {
       oceanHeaveBuffer1 \<leftarrow> applyUncertainty pf oceanHeaveBuffer accelerometerResolution;
       oceanHeaveBuffer2 \<leftarrow> numericalIntegration pf oceanHeaveBuffer1 accelerometerTimestep;
       case (if bufSize oceanHeaveBuffer2 < bufSize RAOBuffer
             then extendHeapBuffer pf oceanHeaveBuffer2 (bufSize RAOBuffer) h1
             else (0, oceanHeaveBuffer2, h1)) of
          (rc2, oceanHeaveBuffer3, h2) \<Rightarrow>
       if rc2 \<noteq> 0 then Some (Some OutOfMemory, waveSpectrumEstimateBuffer, h2)
       else case extendHeapBuffer pf emptyBuffer (bufSize RAOBuffer) h2 of
          (rc3, heaveSpectrumBuffer, h3) \<Rightarrow>
       if rc3 \<noteq> 0 then Some (Some OutOfMemory, waveSpectrumEstimateBuffer, h3)
       else case extendHeapBuffer pf waveSpectrumEstimateBuffer (bufSize RAOBuffer) h3 of
          (rc4, waveSpectrumEstimateBuffer1, h4) \<Rightarrow>
       if rc4 \<noteq> 0 then Some (Some OutOfMemory, waveSpectrumEstimateBuffer1, h4)
       else do {
         (rc5, heaveSpectrum, h5) \<leftarrow>
           calculatePowerSpectrum pf (cells (heapPointer heaveSpectrumBuffer))
             (cells (heapPointer oceanHeaveBuffer3)) (bufSize heaveSpectrumBuffer) h4;
         if rc5 \<noteq> 0
         then Some (Some HeaveMotionPowerSpectrumFailed, waveSpectrumEstimateBuffer1, h5)
         else do {
           waveSpectrum \<leftarrow>
             calculateWaveEnergySpectrum pf (cells (heapPointer waveSpectrumEstimateBuffer1))
               heaveSpectrum (cells (heapPointer RAOBuffer)) (bufSize RAOBuffer);
           Some (None,
                 waveSpectrumEstimateBuffer1
                   \<lparr>heapPointer := withCells (heapPointer waveSpectrumEstimateBuffer1) waveSpectrum\<rparr>,
                 h5)
         }
       }
     })"

text \<open>
  The position series of \<^verbatim>\<open>estimateWaveSpectrum\<close>: what \<^verbatim>\<open>oceanHeaveBuffer\<close> holds after
  \<^verbatim>\<open>applyUncertainty\<close> and \<^verbatim>\<open>numericalIntegration\<close>, for the samples read from the file.
  It is used to state properties of that function.
\<close>

definition positionSeries :: "'f platform \<Rightarrow> 'f list \<Rightarrow> 'f \<Rightarrow> 'f \<Rightarrow> 'f Buffer option" where
  "positionSeries pf heaveAcceleration accelerometerResolution accelerometerTimestep = do {
     oceanHeaveBuffer1 \<leftarrow>
       applyUncertainty pf \<lparr>heapPointer = Some heaveAcceleration, bufSize = length heaveAcceleration\<rparr>
         accelerometerResolution;
     numericalIntegration pf oceanHeaveBuffer1 accelerometerTimestep
   }"


subsection \<open>A platform to compute with\<close>

text \<open>
  Exact arithmetic on the reals, extended by the two infinities and NaN; an allocator
  that never runs out of memory and leaves \<open>7\<close> in the cells it does not initialise; an
  uncertainty library that returns the midpoint of the interval. On the small dyadic
  values used below, IEEE-754 single precision computes the same results.
\<close>

datatype xfloat = Fin real | PInf | NInf | NaN

fun xneg :: "xfloat \<Rightarrow> xfloat" where
  "xneg (Fin a) = Fin (- a)"
| "xneg PInf = NInf"
| "xneg NInf = PInf"
| "xneg NaN = NaN"

fun xadd :: "xfloat \<Rightarrow> xfloat \<Rightarrow> xfloat" where
  "xadd (Fin a) (Fin b) = Fin (a + b)"
| "xadd NaN _ = NaN"
| "xadd _ NaN = NaN"
| "xadd PInf NInf = NaN"
| "xadd NInf PInf = NaN"
| "xadd PInf _ = PInf"
| "xadd _ PInf = PInf"
| "xadd NInf _ = NInf"
| "xadd _ NInf = NInf"

definition xsub :: "xfloat \<Rightarrow> xfloat \<Rightarrow> xfloat" where
  "xsub x y = xadd x (xneg y)"

fun xsgn :: "xfloat \<Rightarrow> real" where
  "xsgn (Fin a) = sgn a"
| "xsgn PInf = 1"
| "xsgn NInf = - 1"
| "xsgn NaN = 0"

definition xinf :: "real \<Rightarrow> xfloat" where
  "xinf s = (if 0 < s then PInf else if s < 0 then NInf else NaN)"

fun xmul :: "xfloat \<Rightarrow> xfloat \<Rightarrow> xfloat" where
  "xmul (Fin a) (Fin b) = Fin (a * b)"
| "xmul x y = xinf (xsgn x * xsgn y)"

fun xdiv :: "xfloat \<Rightarrow> xfloat \<Rightarrow> xfloat" where
  "xdiv (Fin a) (Fin b) = (if b = 0 then xinf (sgn a) else Fin (a / b))"
| "xdiv NaN _ = NaN"
| "xdiv _ NaN = NaN"
| "xdiv (Fin a) _ = Fin 0"
| "xdiv x (Fin b) = xinf (xsgn x * (if 0 \<le> b then 1 else - 1))"
| "xdiv PInf _ = NaN"
| "xdiv NInf _ = NaN"

fun xsqrt :: "xfloat \<Rightarrow> xfloat" where
  "xsqrt (Fin a) = (if a < 0 then NaN else Fin (sqrt a))"
| "xsqrt PInf = PInf"
| "xsqrt _ = NaN"

fun xcos :: "xfloat \<Rightarrow> xfloat" where
  "xcos (Fin a) = Fin (cos a)"
| "xcos _ = NaN"

fun xsin :: "xfloat \<Rightarrow> xfloat" where
  "xsin (Fin a) = Fin (sin a)"
| "xsin _ = NaN"

definition idealPlatform :: "xfloat platform" where
  "idealPlatform =
     \<lparr>fzero = Fin 0,
      INFINITY = PInf,
      fadd = xadd,
      fsub = xsub,
      fmul = xmul,
      fdiv = xdiv,
      isZero = (\<lambda>x. x = Fin 0),
      ofNat = (\<lambda>n. Fin (real n)),
      sqrtf = xsqrt,
      cosf = xcos,
      sinf = xsin,
      twiddleAngle = (\<lambda>k N. Fin (- 2 * pi * real k / real N)),
      minusHalf = (\<lambda>v u. xsub v (xdiv u (Fin 2))),
      plusHalf = (\<lambda>v u. xadd v (xdiv u (Fin 2))),
      libUncertainFloatUniformDist = (\<lambda>l u. xdiv (xadd l u) (Fin 2)),
      available = (\<lambda>h r. True),
      indeterminate = (\<lambda>h i. Fin 7)\<rparr>"

section \<open>Properties\<close>

subsection \<open>The fields of the platform to compute with\<close>

lemma idealPlatform_simps:
  "fzero idealPlatform = Fin 0"
  "INFINITY idealPlatform = PInf"
  "fadd idealPlatform = xadd"
  "fsub idealPlatform = xsub"
  "fmul idealPlatform = xmul"
  "fdiv idealPlatform = xdiv"
  "isZero idealPlatform x \<longleftrightarrow> x = Fin 0"
  "ofNat idealPlatform n = Fin (real n)"
  "sqrtf idealPlatform = xsqrt"
  "cosf idealPlatform = xcos"
  "sinf idealPlatform = xsin"
  "twiddleAngle idealPlatform k N = Fin (- 2 * pi * real k / real N)"
  "minusHalf idealPlatform v u = xsub v (xdiv u (Fin 2))"
  "plusHalf idealPlatform v u = xadd v (xdiv u (Fin 2))"
  "libUncertainFloatUniformDist idealPlatform l u = xdiv (xadd l u) (Fin 2)"
  "available idealPlatform h r"
  "granted idealPlatform h r \<longleftrightarrow> bytes r \<le> 18446744073709551615"
  "indeterminate idealPlatform h i = Fin 7"
  by (simp_all add: idealPlatform_def granted_def SIZE_MAX_def)

subsection \<open>Rounding up to a power of two\<close>

lemma roundUpLoop_pow:
  assumes "arg < 2 ^ 63"
  shows "j = 0 \<or> 2 ^ (j - 1) < arg \<Longrightarrow>
    \<exists>k. roundUpLoop (2 ^ j) arg = Some (2 ^ k) \<and> arg \<le> 2 ^ k \<and> (k = 0 \<or> 2 ^ (k - 1) < arg)"
proof (induction "arg - 2 ^ j" arbitrary: j rule: less_induct)
  case less
  show ?case
  proof (cases "(2::nat) ^ j < arg")
    case False
    then have "roundUpLoop (2 ^ j) arg = Some (2 ^ j)"
      by (subst roundUpLoop.simps) simp
    with False less.prems show ?thesis
      by (intro exI [of _ j]) simp
  next
    case True
    with assms have small: "(2::nat) ^ j * 2 < 2 ^ 64"
      by simp
    have step: "roundUpLoop (2 ^ j) arg = roundUpLoop (2 ^ Suc j) arg"
      using True small by (subst roundUpLoop.simps) (simp add: mult.commute)
    have "arg - 2 * p < arg - p" if "0 < p" "p < arg" for p :: nat
      using that by arith
    from this [of "2 ^ j"] True have "arg - 2 ^ Suc j < arg - 2 ^ j"
      by simp
    moreover have "Suc j = 0 \<or> 2 ^ (Suc j - 1) < arg"
      using True by simp
    ultimately show ?thesis
      using less.hyps [of "Suc j"] step by simp
  qed
qed

lemma roundUp_least:
  assumes "arg \<le> SIZE_MAX div 2"
  shows "\<exists>k. roundUpToNextHighestPowerOfTwo arg = Some (2 ^ k) \<and> arg \<le> 2 ^ k \<and>
    (\<forall>j. arg \<le> 2 ^ j \<longrightarrow> (2::nat) ^ k \<le> 2 ^ j)"
proof -
  from assms have lt: "arg < 2 ^ 63"
    by (simp add: SIZE_MAX_def)
  from roundUpLoop_pow [OF lt, of 0] obtain k where
    k: "roundUpLoop 1 arg = Some (2 ^ k)" "arg \<le> 2 ^ k" "k = 0 \<or> 2 ^ (k - 1) < arg"
    by auto
  have "(2::nat) ^ k \<le> 2 ^ j" if "arg \<le> 2 ^ j" for j
  proof (cases "k = 0")
    case True
    then show ?thesis by simp
  next
    case False
    with k(3) have "(2::nat) ^ (k - 1) < arg"
      by simp
    from this that have "(2::nat) ^ (k - 1) < 2 ^ j"
      by (rule less_le_trans)
    then have "k - 1 < j"
      by simp
    with False have "k \<le> j"
      by simp
    then show ?thesis
      by simp
  qed
  with k(1,2) lt show ?thesis
    by (auto simp: roundUpToNextHighestPowerOfTwo_def SIZE_MAX_def)
qed

lemma roundUp_sentinel:
  "roundUpToNextHighestPowerOfTwo arg = Some 0 \<longleftrightarrow> SIZE_MAX div 2 < arg"
proof (cases "arg \<le> SIZE_MAX div 2")
  case True
  from roundUp_least [OF True] show ?thesis using True by auto
next
  case False
  then show ?thesis
    by (simp add: roundUpToNextHighestPowerOfTwo_def SIZE_MAX_def)
qed

lemma roundUp_zero: "roundUpToNextHighestPowerOfTwo 0 = Some 1"
  by (simp add: roundUpToNextHighestPowerOfTwo_def SIZE_MAX_def roundUpLoop.simps)

subsection \<open>Counted loops over blocks\<close>

lemma for_loop_0: "for_loop 0 body s = Some s"
  by (simp add: for_loop_def)

lemma for_loop_Suc: "for_loop (Suc N) body s = Option.bind (for_loop N body s) (body N)"
  by (simp add: for_loop_def)

lemma for_loop_cong:
  "(\<And>i s. i < N \<Longrightarrow> body i s = body' i s) \<Longrightarrow> for_loop N body s = for_loop N body' s"
  by (induction N) (simp_all add: for_loop_0 for_loop_Suc cong: Option.bind_cong)

lemma for_loop_write:
  assumes body: "\<And>i blk. i < N \<Longrightarrow> body i blk = wr blk i (val i)"
    and len: "N \<le> length blk"
  shows "for_loop N body blk = Some (map val [0..<N] @ drop N blk)"
  using assms
proof (induction N)
  case 0
  then show ?case by (simp add: for_loop_0)
next
  case (Suc N)
  then have IH: "for_loop N body blk = Some (map val [0..<N] @ drop N blk)"
    by simp
  from Suc.prems(2) have d: "drop N blk = blk ! N # drop (Suc N) blk"
    by (simp add: Cons_nth_drop_Suc)
  have "wr (map val [0..<N] @ drop N blk) N (val N) = Some (map val [0..<Suc N] @ drop (Suc N) blk)"
    by (simp add: wr_def list_update_append d)
  with IH Suc.prems(1) [of N] show ?case
    by (simp add: for_loop_Suc)
qed

lemma for_loop_inv:
  assumes step: "\<And>i s. i < N \<Longrightarrow> P s \<Longrightarrow> \<exists>s'. body i s = Some s' \<and> P s'"
    and init: "P s"
  shows "\<exists>s'. for_loop N body s = Some s' \<and> P s'"
  using step
proof (induction N)
  case 0
  with init show ?case by (simp add: for_loop_0)
next
  case (Suc N)
  then obtain s1 where s1: "for_loop N body s = Some s1" "P s1"
    by (metis less_Suc_eq)
  from Suc.prems [of N s1] s1(2) obtain s2 where "body N s1 = Some s2" "P s2"
    by auto
  with s1(1) show ?case
    by (simp add: for_loop_Suc)
qed

lemma rd_in_range: "i < length xs \<Longrightarrow> rd xs i = Some (xs ! i)"
  by (simp add: rd_def)

lemma wr_in_range: "i < length xs \<Longrightarrow> wr xs i v = Some (xs[i := v])"
  by (simp add: wr_def)

lemma elementWiseDivide_result:
  assumes "N \<le> length result" "N \<le> length numerator" "N \<le> length denominator"
  shows "elementWiseDivide pf result numerator denominator N =
    Some (map (\<lambda>i. if isZero pf (denominator ! i) then INFINITY pf
                    else fdiv pf (numerator ! i) (denominator ! i)) [0..<N] @ drop N result)"
  unfolding elementWiseDivide_def
  using assms by (intro for_loop_write) (simp_all add: rd_in_range)

lemma periodogram_result:
  assumes "N \<le> length S" "N \<le> length F"
  shows "periodogram pf S F N = Some (map (\<lambda>i. fmul pf (F ! i) (F ! i)) [0..<N] @ drop N S)"
  unfolding periodogram_def
  using assms by (intro for_loop_write) (simp_all add: rd_in_range)

subsection \<open>The transform returns on lengths that are powers of two\<close>

lemma butterfly_length:
  assumes "fo + (k + N div 2) < length F"
  shows "\<exists>F'. butterfly pf fo N k F = Some F' \<and> length F' = length F"
  using assms by (simp add: butterfly_def rd_in_range wr_in_range Let_def)

lemma butterflies_length:
  fixes F :: "'f Complex list"
  assumes "fo + 2 * (N div 2) \<le> length F"
  shows "\<exists>F'. for_loop (N div 2) (butterfly pf fo N) F = Some F' \<and> length F' = length F"
proof (rule for_loop_inv [where P = "\<lambda>G. length G = length F"])
  fix i and s :: "'f Complex list"
  assume "i < N div 2" "length s = length F"
  with assms have "fo + (i + N div 2) < length s"
    by simp
  from butterfly_length [OF this] \<open>length s = length F\<close>
  show "\<exists>s'. butterfly pf fo N i s = Some s' \<and> length s' = length F"
    by simp
qed simp

lemma dit2FFT_power_of_two:
  "fo + 2 ^ j \<le> length F \<Longrightarrow> xo + stride * (2 ^ j - 1) < length x \<Longrightarrow> stride * 2 ^ j < 2 ^ 64
   \<Longrightarrow> \<exists>F'. dit2FFT pf F fo x xo (2 ^ j) stride = Some F' \<and> length F' = length F"
proof (induction j arbitrary: F fo xo stride)
  case 0
  then show ?case
    by (subst dit2FFT.simps) (simp add: rd_in_range wr_in_range)
next
  case (Suc j)
  have half: "(2::nat) ^ Suc j div 2 = 2 ^ j" and ne: "(2::nat) ^ Suc j \<noteq> 1"
    by simp_all
  from Suc.prems(3) have nowrap: "(2 * stride) mod 2 ^ 64 = 2 * stride"
  proof -
    have "2 * stride \<le> stride * 2 ^ Suc j"
      by simp
    from this Suc.prems(3) have "2 * stride < 2 ^ 64"
      by (rule le_less_trans)
    then show ?thesis
      by (rule mod_less)
  qed
  define m where "m = (2::nat) ^ j - 1"
  have "2 * p - 1 = 2 * (p - 1) + 1" if "0 < p" for p :: nat
    using that by arith
  from this [of "2 ^ j"] have pw: "(2::nat) ^ Suc j - 1 = 2 * m + 1"
    by (simp add: m_def)
  have "stride * (2 * m + 1) = 2 * stride * m + stride"
    by (simp add: algebra_simps)
  with Suc.prems(2) have "xo + (2 * stride * m + stride) < length x"
    by (simp only: pw)
  then have "xo + 2 * stride * m < length x" "xo + stride + 2 * stride * m < length x"
    by simp_all
  then have x1: "xo + 2 * stride * (2 ^ j - 1) < length x"
    and x2: "xo + stride + 2 * stride * (2 ^ j - 1) < length x"
    by (simp_all only: m_def)
  have w: "2 * stride * 2 ^ j < 2 ^ 64"
    using Suc.prems(3) by (simp add: algebra_simps)
  from Suc.prems(1) have f1: "fo + 2 ^ j \<le> length F"
    by simp
  from Suc.IH [OF f1 x1 w] obtain F1 where
    F1: "dit2FFT pf F fo x xo (2 ^ j) (2 * stride) = Some F1" "length F1 = length F"
    by blast
  from Suc.prems(1) F1(2) have f2: "fo + 2 ^ j + 2 ^ j \<le> length F1"
    by simp
  from Suc.IH [OF f2 x2 w] F1(2) obtain F2 where
    F2: "dit2FFT pf F1 (fo + 2 ^ j) x (xo + stride) (2 ^ j) (2 * stride) = Some F2"
      "length F2 = length F"
    by auto
  from Suc.prems(1) F2(2) have "fo + 2 * (2 ^ Suc j div 2) \<le> length F2"
    by simp
  from butterflies_length [OF this] F2(2) obtain F3 where
    "for_loop (2 ^ Suc j div 2) (butterfly pf fo (2 ^ Suc j)) F2 = Some F3" "length F3 = length F"
    by auto
  with F1(1) F2(1) show ?case
    by (subst dit2FFT.simps) (simp only: ne half nowrap if_False bind.bind_lunit, simp)
qed

lemma roundUp_power:
  assumes "roundUpToNextHighestPowerOfTwo N = Some s" "s \<noteq> 0"
  shows "\<exists>j. s = 2 ^ j \<and> N \<le> s \<and> s < 2 ^ 64"
proof -
  from assms roundUp_sentinel [of N] have le: "N \<le> SIZE_MAX div 2"
    by auto
  from roundUp_least [OF le] assms(1) obtain k where
    k: "s = 2 ^ k" "N \<le> 2 ^ k" "\<forall>j. N \<le> 2 ^ j \<longrightarrow> (2::nat) ^ k \<le> 2 ^ j"
    by auto
  from le have "N \<le> 2 ^ 63"
    by (simp add: SIZE_MAX_def)
  with k(3) have "(2::nat) ^ k \<le> 2 ^ 63"
    by blast
  then have "(2::nat) ^ k < 2 ^ 64"
    by simp
  with k(1,2) show ?thesis
    by auto
qed

lemma copy_loop_length:
  fixes blk :: "'f Complex list"
  assumes "N \<le> length x" "N \<le> length blk"
  shows "\<exists>blk'. for_loop N
      (\<lambda>i blk. do { xi \<leftarrow> rd x i; c \<leftarrow> rd blk i; wr blk i (c\<lparr>realPart := xi\<rparr>) }) blk = Some blk'
    \<and> length blk' = length blk"
proof (rule for_loop_inv [where P = "\<lambda>b. length b = length blk"])
  fix i and s :: "'f Complex list"
  assume "i < N" "length s = length blk"
  with assms show "\<exists>s'. do { xi \<leftarrow> rd x i; c \<leftarrow> rd s i; wr s i (c\<lparr>realPart := xi\<rparr>) } = Some s'
    \<and> length s' = length blk"
    by (simp add: rd_in_range wr_in_range)
qed simp

lemma fft_result:
  assumes s: "roundUpToNextHighestPowerOfTwo N = Some s" "s \<noteq> 0"
    and g1: "granted pf h (Calloc s ComplexT)"
    and g2: "granted pf (h @ [Calloc s ComplexT]) (Calloc s ComplexT)"
    and x: "N \<le> length x" and F: "s \<le> length F"
  shows "\<exists>Fcplx. length Fcplx = s \<and>
    fft pf F x N h =
      Some (0, map (\<lambda>i. complexMagnitude pf (Fcplx ! i)) [0..<s] @ drop s F,
            h @ [Calloc s ComplexT, Calloc s ComplexT])"
proof -
  from roundUp_power [OF s] obtain j where j: "s = 2 ^ j" "N \<le> s" "s < 2 ^ 64"
    by blast
  define czero where "czero = \<lparr>realPart = fzero pf, imaginary = fzero pf\<rparr>"
  from copy_loop_length [of N x "replicate s czero"] x j(2) obtain paddedX1 where
    px: "for_loop N
      (\<lambda>i blk. do { xi \<leftarrow> rd x i; c \<leftarrow> rd blk i; wr blk i (c\<lparr>realPart := xi\<rparr>) })
      (replicate s czero) = Some paddedX1" "length paddedX1 = s"
    by auto
  from dit2FFT_power_of_two [of 0 j "replicate s czero" 0 1 paddedX1 pf] px(2) j obtain Fcplx1 where
    fc: "dit2FFT pf (replicate s czero) 0 paddedX1 0 s 1 = Some Fcplx1" "length Fcplx1 = s"
    by auto
  have "for_loop s (\<lambda>i F. do { c \<leftarrow> rd Fcplx1 i; wr F i (complexMagnitude pf c) }) F =
    Some (map (\<lambda>i. complexMagnitude pf (Fcplx1 ! i)) [0..<s] @ drop s F)"
    using F fc(2) by (intro for_loop_write) (simp_all add: rd_in_range)
  with px(1) fc s(1) g1 g2 show ?thesis
    by (intro exI [of _ Fcplx1]) (simp add: fft_def calloc_def cells_def czero_def)
qed

subsection \<open>Claims about rounding up to a power of two\<close>

text \<open>
  C6. For every \<open>n\<close> from \<open>1\<close> to half the largest \<^verbatim>\<open>size_t\<close>,
  \<^verbatim>\<open>roundUpToNextHighestPowerOfTwo\<close> returns, and what it returns is a power of two, is
  at least \<open>n\<close>, and is at most every power of two that is at least \<open>n\<close>. For every
  \<open>n\<close> above half the largest \<^verbatim>\<open>size_t\<close> it returns the sentinel \<open>0\<close>. It maps \<open>1\<close> to
  \<open>1\<close> and \<open>5\<close> to \<open>8\<close>.
\<close>

theorem roundUp_smallest_power_of_two:
  "(1 \<le> n \<and> n \<le> SIZE_MAX div 2 \<longrightarrow>
      (\<exists>k. roundUpToNextHighestPowerOfTwo n = Some (2 ^ k) \<and> n \<le> 2 ^ k \<and>
           (\<forall>j. n \<le> 2 ^ j \<longrightarrow> (2::nat) ^ k \<le> 2 ^ j)))
   \<and> (SIZE_MAX div 2 < n \<longrightarrow> roundUpToNextHighestPowerOfTwo n = Some 0)
   \<and> roundUpToNextHighestPowerOfTwo 1 = Some 1
   \<and> roundUpToNextHighestPowerOfTwo 5 = Some 8"
proof -
  have "roundUpToNextHighestPowerOfTwo 1 = Some 1" "roundUpToNextHighestPowerOfTwo 5 = Some 8"
    by (simp_all add: roundUpToNextHighestPowerOfTwo_def SIZE_MAX_def roundUpLoop.simps)
  moreover have "SIZE_MAX div 2 < n \<longrightarrow> roundUpToNextHighestPowerOfTwo n = Some 0"
    by (simp add: roundUp_sentinel)
  ultimately show ?thesis
    using roundUp_least [of n] by blast
qed

theorem roundUp_smallest_power_of_two_witness:
  "(1::nat) \<le> 6 \<and> 6 \<le> SIZE_MAX div 2
   \<and> (\<exists>k. roundUpToNextHighestPowerOfTwo 6 = Some (2 ^ k) \<and> 6 \<le> (2::nat) ^ k \<and>
          (\<forall>j. 6 \<le> (2::nat) ^ j \<longrightarrow> (2::nat) ^ k \<le> 2 ^ j))
   \<and> SIZE_MAX div 2 < 2 ^ 63 \<and> roundUpToNextHighestPowerOfTwo (2 ^ 63) = Some 0"
  using roundUp_smallest_power_of_two [of 6] roundUp_smallest_power_of_two [of "2 ^ 63"]
  by (simp add: SIZE_MAX_def)

text \<open>
  C7, as the code has it. \<^verbatim>\<open>roundUpToNextHighestPowerOfTwo\<close> maps \<open>0\<close> to \<open>1\<close>: the loop
  does not run, and the initial value \<open>1\<close> of \<^verbatim>\<open>returnValue\<close> is returned. The sentinel
  \<open>0\<close> is returned for the arguments above half the largest \<^verbatim>\<open>size_t\<close> and for no other.
\<close>

theorem roundUp_zero_is_one:
  "roundUpToNextHighestPowerOfTwo 0 = Some 1
   \<and> (\<forall>n. roundUpToNextHighestPowerOfTwo n = Some 0 \<longleftrightarrow> SIZE_MAX div 2 < n)"
  by (simp add: roundUp_zero roundUp_sentinel)

theorem roundUp_zero_is_one_witness:
  "roundUpToNextHighestPowerOfTwo 0 = Some 1
   \<and> SIZE_MAX div 2 < 2 ^ 63 \<and> roundUpToNextHighestPowerOfTwo (2 ^ 63) = Some 0
   \<and> \<not> SIZE_MAX div 2 < 0 \<and> roundUpToNextHighestPowerOfTwo 0 \<noteq> Some 0"
  using roundUp_zero_is_one by (simp add: SIZE_MAX_def)

text \<open>
  C7, as the claim states it, fails at the argument \<open>0\<close>: the sentinel is not returned
  there, and the result differs from the one for an argument above half the largest
  \<^verbatim>\<open>size_t\<close>.
\<close>

theorem roundUp_zero_not_sentinel:
  "roundUpToNextHighestPowerOfTwo 0 \<noteq> Some 0
   \<and> roundUpToNextHighestPowerOfTwo 0 \<noteq> roundUpToNextHighestPowerOfTwo (SIZE_MAX div 2 + 1)"
  by (simp add: roundUpToNextHighestPowerOfTwo_def SIZE_MAX_def roundUpLoop.simps)

subsection \<open>Claims about the spectral ratio\<close>

text \<open>
  C4. When numerator and denominator hold \<open>N\<close> cells each and the result block at least
  \<open>N\<close>, \<^verbatim>\<open>elementWiseDivide\<close> returns, and in every bin \<open>i < N\<close> the result is \<^verbatim>\<open>INFINITY\<close> when \<^verbatim>\<open>denominator[i] == 0\<close> and
  \<^verbatim>\<open>numerator[i] / denominator[i]\<close> otherwise. In particular, when every bin of the
  denominator compares equal to zero, every bin of the result is \<^verbatim>\<open>INFINITY\<close>.
\<close>

theorem elementWiseDivide_per_bin:
  assumes "N \<le> length result" "length numerator = N" "length denominator = N"
  shows "\<exists>r. elementWiseDivide pf result numerator denominator N = Some r
    \<and> length r = length result
    \<and> (\<forall>i<N. r ! i = (if isZero pf (denominator ! i) then INFINITY pf
                       else fdiv pf (numerator ! i) (denominator ! i)))
    \<and> ((\<forall>i<N. isZero pf (denominator ! i)) \<longrightarrow> take N r = replicate N (INFINITY pf))"
proof -
  let ?r = "map (\<lambda>i. if isZero pf (denominator ! i) then INFINITY pf
                      else fdiv pf (numerator ! i) (denominator ! i)) [0..<N] @ drop N result"
  from assms have "elementWiseDivide pf result numerator denominator N = Some ?r"
    by (intro elementWiseDivide_result) simp_all
  moreover from assms have "length ?r = length result"
    by simp
  moreover have bins: "\<forall>i<N. ?r ! i = (if isZero pf (denominator ! i) then INFINITY pf
                       else fdiv pf (numerator ! i) (denominator ! i))"
    by (simp add: nth_append)
  moreover have "take N ?r = replicate N (INFINITY pf)" if "\<forall>i<N. isZero pf (denominator ! i)"
    using that by (intro nth_equalityI) (simp_all add: nth_append)
  ultimately show ?thesis
    by blast
qed

theorem elementWiseDivide_per_bin_witness:
  "(\<exists>r. elementWiseDivide idealPlatform [Fin 0, Fin 0] [Fin 1, Fin 6] [Fin 0, Fin 3] 2 = Some r
      \<and> r ! 0 = PInf \<and> r ! 1 = Fin 2)
   \<and> (\<exists>r. elementWiseDivide idealPlatform [Fin 0, Fin 0] [Fin 1, Fin 6] [Fin 0, Fin 0] 2 = Some r
      \<and> take 2 r = [PInf, PInf])"
  using
    elementWiseDivide_per_bin [of 2 "[Fin 0, Fin 0]" "[Fin 1, Fin 6]" "[Fin 0, Fin 3]" idealPlatform]
    elementWiseDivide_per_bin [of 2 "[Fin 0, Fin 0]" "[Fin 1, Fin 6]" "[Fin 0, Fin 0]" idealPlatform]
  by (auto simp: idealPlatform_simps numeral_2_eq_2 All_less_Suc)

subsection \<open>Evaluation on the platform to compute with\<close>

lemmas eval_simps =
  positionSeries_def applyUncertainty_def numericalIntegration_def integrationLoop_def
  for_loop_def integrationStep_def rd_def wr_def integrate_def subtractMean_def cells_def
  withCells_def idealPlatform_simps xsub_def upt_conv_Cons Let_def




subsection \<open>Claims about extending a buffer\<close>

lemma extendHeapBuffer_no_op:
  "newSize \<le> bufSize buf \<Longrightarrow> extendHeapBuffer pf buf newSize h = (0, buf, h)"
  by (simp add: extendHeapBuffer_def)

lemma extendHeapBuffer_grown:
  fixes buf :: "'f Buffer"
  assumes "bufSize buf < newSize" "length (cells (heapPointer buf)) = bufSize buf"
    and "granted pf h (Reallocarray newSize Float)"
  shows "extendHeapBuffer pf buf newSize h =
    (0,
     \<lparr>heapPointer = Some (cells (heapPointer buf) @ map (indeterminate pf h) [bufSize buf..<newSize]),
      bufSize = newSize\<rparr>,
     h @ [Reallocarray newSize Float])"
  using assms by (simp add: extendHeapBuffer_def reallocarray_def cells_def)

text \<open>
  C1. \<^verbatim>\<open>extendHeapBuffer\<close> with a new size that is not larger is a no-op, and a
  successful extension keeps the old cells (the two lemmas above). The cells it adds are
  what \<^verbatim>\<open>reallocarray\<close> leaves there, not \<open>0.0\<close>: extending the one-cell buffer \<open>[1]\<close>
  to two cells on an allocator that leaves \<open>7\<close> in an uninitialised cell gives \<open>[1, 7]\<close>.
\<close>

theorem extendHeapBuffer_new_cells_not_zeroed:
  "extendHeapBuffer idealPlatform \<lparr>heapPointer = Some [Fin 1], bufSize = 1\<rparr> 2 [] =
     (0, \<lparr>heapPointer = Some [Fin 1, Fin 7], bufSize = 2\<rparr>, [Reallocarray 2 Float])
   \<and> Fin 7 \<noteq> fzero idealPlatform"
  by (simp add: extendHeapBuffer_def reallocarray_def idealPlatform_simps upt_conv_Cons)

subsection \<open>Claims about the integration\<close>

lemma length_trapezoidStates: "length (trapezoidStates pf dt s a xs) = length xs"
  by (induction xs arbitrary: s a) (simp_all add: Let_def)

lemma trapezoidStates_snoc:
  "trapezoidStates pf dt s a (xs @ [x]) =
     trapezoidStates pf dt s a xs @
       [integrate pf (last (s # trapezoidStates pf dt s a xs)) x (last (a # xs)) dt]"
proof (induction xs arbitrary: s a)
  case Nil
  show ?case by simp
next
  case (Cons y ys)
  show ?case
    by (simp add: Cons.IH Let_def del: last.simps)
      (simp add: last_ConsR)
qed

lemma trapezoidStates_nth:
  "i < length xs \<Longrightarrow>
   trapezoidStates pf dt s a xs ! i =
     integrate pf (if i = 0 then s else trapezoidStates pf dt s a xs ! (i - 1)) (xs ! i)
       (if i = 0 then a else xs ! (i - 1)) dt"
proof (induction xs arbitrary: s a i)
  case Nil
  then show ?case by simp
next
  case (Cons y ys)
  show ?case
  proof (cases i)
    case 0
    then show ?thesis by (simp add: Let_def)
  next
    case (Suc j)
    with Cons.prems have j: "j < length ys"
      by simp
    from Cons.IH [OF j, of "integrate pf s y a dt" y] Suc show ?thesis
      by (cases j) (simp_all add: Let_def)
  qed
qed

lemma integrationLoop_prefix:
  assumes "n \<le> length blk"
  shows "for_loop n (integrationStep pf dt) (blk, s, a) =
    Some (map position (trapezoidStates pf dt s a (take n blk)) @ drop n blk,
          last (s # trapezoidStates pf dt s a (take n blk)),
          last (a # take n blk))"
  using assms
proof (induction n)
  case 0
  show ?case by (simp add: for_loop_0)
next
  case (Suc n)
  then have n: "n < length blk"
    by simp
  let ?sts = "trapezoidStates pf dt s a (take n blk)"
  let ?new = "integrate pf (last (s # ?sts)) (blk ! n) (last (a # take n blk)) dt"
  from Suc have IH: "for_loop n (integrationStep pf dt) (blk, s, a) =
    Some (map position ?sts @ drop n blk, last (s # ?sts), last (a # take n blk))"
    by simp
  from n have tk: "take (Suc n) blk = take n blk @ [blk ! n]"
    by (simp add: take_Suc_conv_app_nth)
  from n have len: "length (map position ?sts) = n"
    by (simp add: length_trapezoidStates)
  from n have d: "drop n blk = blk ! n # drop (Suc n) blk"
    by (simp add: Cons_nth_drop_Suc)
  have step: "integrationStep pf dt n
      (map position ?sts @ drop n blk, last (s # ?sts), last (a # take n blk)) =
    Some (map position (?sts @ [?new]) @ drop (Suc n) blk, ?new, blk ! n)"
    using n len
    by (simp add: integrationStep_def rd_def wr_def nth_append list_update_append d Let_def)
  show ?case
    by (simp only: for_loop_Suc IH bind.bind_lunit step tk trapezoidStates_snoc) simp
qed

text \<open>
  C2, as the code has it. For a non-empty series the loop of \<^verbatim>\<open>numericalIntegration\<close>
  returns, and its states are the recurrence started from rest with \<open>0\<close> as the prior
  acceleration (\<^verbatim>\<open>oldAcceleration\<close> is initialised to \<open>0\<close>): the first step is
  \<^verbatim>\<open>integrate\<close> from rest of the first sample and \<open>0\<close>, and every later step \<open>i\<close> is
  \<^verbatim>\<open>integrate\<close> of the state of step \<open>i - 1\<close>, the sample \<open>i\<close> and the sample \<open>i - 1\<close>.
  The buffer holds the positions of these states, and \<^verbatim>\<open>numericalIntegration\<close> is
  \<^verbatim>\<open>subtractMean\<close> of that. With the recurrence of the spec, the speed after the first
  step is \<open>0 + dt * (0 + accel[0]) / 2\<close>.
\<close>

theorem numericalIntegration_prior_acceleration:
  assumes "blk \<noteq> []"
  shows "(let rest = \<lparr>position = fzero pf, speed = fzero pf\<rparr>;
              states = trapezoidStates pf dt rest (fzero pf) blk
          in integrationLoop pf dt (length blk) blk =
               Some (map position states, last states, last blk)
           \<and> numericalIntegration pf \<lparr>heapPointer = Some blk, bufSize = length blk\<rparr> dt =
               subtractMean pf \<lparr>heapPointer = Some (map position states), bufSize = length blk\<rparr>
           \<and> states ! 0 = integrate pf rest (blk ! 0) (fzero pf) dt
           \<and> (\<forall>i. 0 < i \<and> i < length blk \<longrightarrow>
                  states ! i = integrate pf (states ! (i - 1)) (blk ! i) (blk ! (i - 1)) dt)
           \<and> speed (states ! 0) =
               fadd pf (fzero pf) (fdiv pf (fmul pf dt (fadd pf (fzero pf) (blk ! 0))) (ofNat pf 2)))"
proof -
  define rest where "rest = \<lparr>position = fzero pf, speed = fzero pf\<rparr>"
  define states where "states = trapezoidStates pf dt rest (fzero pf) blk"
  from assms have ne: "states \<noteq> []"
    by (cases blk) (simp_all add: states_def Let_def)
  have loop: "integrationLoop pf dt (length blk) blk =
      Some (map position states, last states, last blk)"
    using integrationLoop_prefix [of "length blk" blk pf dt rest "fzero pf"] assms ne
    by (simp add: integrationLoop_def rest_def states_def)
  from assms have first: "rd blk 0 = Some (blk ! 0)"
    by (simp add: rd_def)
  have whole: "numericalIntegration pf \<lparr>heapPointer = Some blk, bufSize = length blk\<rparr> dt =
      subtractMean pf \<lparr>heapPointer = Some (map position states), bufSize = length blk\<rparr>"
    by (simp add: numericalIntegration_def cells_def withCells_def first loop)
  from assms have nth0: "states ! 0 = integrate pf rest (blk ! 0) (fzero pf) dt"
    unfolding states_def by (subst trapezoidStates_nth) simp_all
  have nth: "states ! i = integrate pf (states ! (i - 1)) (blk ! i) (blk ! (i - 1)) dt"
    if "0 < i" "i < length blk" for i
    using that unfolding states_def by (subst trapezoidStates_nth) simp_all
  have sp: "speed (states ! 0) =
      fadd pf (fzero pf) (fdiv pf (fmul pf dt (fadd pf (fzero pf) (blk ! 0))) (ofNat pf 2))"
    by (simp add: nth0 rest_def integrate_def Let_def)
  from loop whole nth0 nth sp show ?thesis
    unfolding Let_def rest_def [symmetric] states_def [symmetric] by blast
qed

theorem numericalIntegration_prior_acceleration_witness:
  "integrationLoop idealPlatform (Fin 1) 3 [Fin 2, Fin 4, Fin 8] =
     Some ([Fin (1 / 2), Fin 3, Fin 10], \<lparr>position = Fin 10, speed = Fin 10\<rparr>, Fin 8)
   \<and> numericalIntegration idealPlatform \<lparr>heapPointer = Some [Fin 2, Fin 4, Fin 8], bufSize = 3\<rparr>
       (Fin 1) =
     Some \<lparr>heapPointer = Some [Fin (- 4), Fin (- (3 / 2)), Fin (11 / 2)], bufSize = 3\<rparr>"
  using numericalIntegration_prior_acceleration [of "[Fin 2, Fin 4, Fin 8]" idealPlatform "Fin 1"]
  by (simp add: Let_def integrate_def idealPlatform_simps subtractMean_def for_loop_def rd_def
      wr_def cells_def withCells_def xsub_def upt_conv_Cons numeral_3_eq_3)

text \<open>
  C2, as the claim states it, fails: for the series \<open>[2, 4, 8]\<close> and \<open>dt = 1\<close> the loop
  leaves the positions \<open>[1/2, 3, 10]\<close>, where the recurrence with the first sample as
  its own prior acceleration gives \<open>[1, 9/2, 25/2]\<close>; the speed after the first step is
  \<open>1\<close>, not \<open>dt * accel[0] = 2\<close>.
\<close>

theorem first_velocity_increment_counterexample:
  "integrationLoop idealPlatform (Fin 1) 3 [Fin 2, Fin 4, Fin 8] =
     Some ([Fin (1 / 2), Fin 3, Fin 10], \<lparr>position = Fin 10, speed = Fin 10\<rparr>, Fin 8)
   \<and> map position (trapezoidStates idealPlatform (Fin 1)
         \<lparr>position = Fin 0, speed = Fin 0\<rparr> (Fin 2) [Fin 2, Fin 4, Fin 8]) =
     [Fin 1, Fin (9 / 2), Fin (25 / 2)]
   \<and> integrationLoop idealPlatform (Fin 1) 1 [Fin 2, Fin 4, Fin 8] =
     Some ([Fin (1 / 2), Fin 4, Fin 8], \<lparr>position = Fin (1 / 2), speed = Fin 1\<rparr>, Fin 2)
   \<and> Fin 1 \<noteq> fmul idealPlatform (Fin 1) (Fin 2)"
  by (simp add: integrationLoop_def for_loop_def integrationStep_def rd_def wr_def Let_def
      integrate_def idealPlatform_simps upt_conv_Cons)

subsection \<open>Claims about the power spectrum\<close>


text \<open>
  C5. Let \<open>s\<close> be what \<^verbatim>\<open>roundUpToNextHighestPowerOfTwo\<close> returns for \<open>N\<close>, not the sentinel.
  When the three allocations are granted, the time series holds at least \<open>N\<close> cells and
  the output block at least \<open>s\<close>, \<^verbatim>\<open>calculatePowerSpectrum\<close> returns \<open>0\<close>; \<^verbatim>\<open>fft\<close>, applied
  to the time series as it is, has returned a magnitude spectrum \<open>F\<close> of exactly \<open>s\<close>
  cells; and the function has written exactly the first \<open>s\<close> cells of the output block,
  cell \<open>i\<close> with \<open>F[i] * F[i]\<close> and nothing else.
\<close>

theorem calculatePowerSpectrum_squares_magnitudes:
  assumes s: "roundUpToNextHighestPowerOfTwo N = Some s" "s \<noteq> 0"
    and g0: "granted pf h (Calloc s Float)"
    and g1: "granted pf (h @ [Calloc s Float]) (Calloc s ComplexT)"
    and g2: "granted pf (h @ [Calloc s Float, Calloc s ComplexT]) (Calloc s ComplexT)"
    and x: "N \<le> length timeSeriesData" and P: "s \<le> length powerSpectrum"
  shows "\<exists>F h'. fft pf (replicate s (fzero pf)) timeSeriesData N (h @ [Calloc s Float]) = Some (0, F, h')
    \<and> length F = s
    \<and> calculatePowerSpectrum pf powerSpectrum timeSeriesData N h =
        Some (0, map (\<lambda>i. fmul pf (F ! i) (F ! i)) [0..<s] @ drop s powerSpectrum, h')"
proof -
  from fft_result [OF s g1, of "timeSeriesData" "replicate s (fzero pf)"] g2 x
  obtain F h' where
    F: "fft pf (replicate s (fzero pf)) timeSeriesData N (h @ [Calloc s Float]) = Some (0, F, h')"
      "length F = s"
    by auto
  from periodogram_result [of s powerSpectrum F pf] P F(2)
  have "periodogram pf powerSpectrum F s =
    Some (map (\<lambda>i. fmul pf (F ! i) (F ! i)) [0..<s] @ drop s powerSpectrum)"
    by simp
  with F s(1) g0 show ?thesis
    by (simp add: calculatePowerSpectrum_def calloc_def cells_def)
qed

theorem calculatePowerSpectrum_squares_magnitudes_witness:
  "roundUpToNextHighestPowerOfTwo 2 = Some 2
   \<and> (\<exists>F h'. fft idealPlatform [Fin 0, Fin 0] [Fin 1, Fin 1] 2 [Calloc 2 Float] = Some (0, F, h')
        \<and> length F = 2
        \<and> calculatePowerSpectrum idealPlatform [Fin 0, Fin 0] [Fin 1, Fin 1] 2 [] =
            Some (0, [xmul (F ! 0) (F ! 0), xmul (F ! 1) (F ! 1)], h'))"
proof -
  have r: "roundUpToNextHighestPowerOfTwo 2 = Some 2"
    by (simp add: roundUpToNextHighestPowerOfTwo_def SIZE_MAX_def roundUpLoop.simps)
  from calculatePowerSpectrum_squares_magnitudes
    [of 2 2 idealPlatform "[]" "[Fin 1, Fin 1]" "[Fin 0, Fin 0]", OF r]
  show ?thesis
    using r by (simp add: idealPlatform_simps numeral_2_eq_2)
qed

text \<open>
  C10. For an empty time series (\<open>N = 0\<close>) \<^verbatim>\<open>roundUpToNextHighestPowerOfTwo\<close> gives \<open>1\<close>, and
  when the three allocations are granted \<^verbatim>\<open>calculatePowerSpectrum\<close> returns \<open>0\<close> and
  writes one cell, which holds \<open>0.0\<close>. The three facts of float arithmetic that are used
  (\<open>0 * 0 = 0\<close>, \<open>0 + 0 = 0\<close>, \<open>sqrtf(0) = 0\<close>) hold in IEEE-754.
\<close>

theorem calculatePowerSpectrum_empty_series:
  assumes g0: "granted pf h (Calloc 1 Float)"
    and g1: "granted pf (h @ [Calloc 1 Float]) (Calloc 1 ComplexT)"
    and g2: "granted pf (h @ [Calloc 1 Float, Calloc 1 ComplexT]) (Calloc 1 ComplexT)"
    and P: "powerSpectrum \<noteq> []"
    and z: "fmul pf (fzero pf) (fzero pf) = fzero pf" "fadd pf (fzero pf) (fzero pf) = fzero pf"
      "sqrtf pf (fzero pf) = fzero pf"
  shows "roundUpToNextHighestPowerOfTwo 0 = Some 1
    \<and> calculatePowerSpectrum pf powerSpectrum timeSeriesData 0 h =
        Some (0, fzero pf # tl powerSpectrum,
              h @ [Calloc 1 Float, Calloc 1 ComplexT, Calloc 1 ComplexT])"
proof -
  from P obtain p ps where "powerSpectrum = p # ps"
    by (cases powerSpectrum) auto
  with g0 g1 g2 z roundUp_zero show ?thesis
    by (simp add: calculatePowerSpectrum_def fft_def calloc_def cells_def for_loop_0
        for_loop_def dit2FFT.simps rd_def wr_def periodogram_def complexMagnitude_def)
qed

theorem calculatePowerSpectrum_empty_series_witness:
  "calculatePowerSpectrum idealPlatform [Fin 9] [] 0 [] =
     Some (0, [Fin 0], [Calloc 1 Float, Calloc 1 ComplexT, Calloc 1 ComplexT])"
  using calculatePowerSpectrum_empty_series [of idealPlatform "[]" "[Fin 9]" "[]"]
  by (simp add: idealPlatform_simps)

subsection \<open>Claims about the guards of the pipeline\<close>

text \<open>
  C8. When the two calibration files have been read and hold different numbers of
  samples, \<^verbatim>\<open>characteriseRAO\<close> returns \<open>1\<close> from the branch that reports the mismatch. The
  RAO buffer is as it was, and the only requests made to the allocator are the two of
  the file readers: no spectrum buffer was allocated or extended.
\<close>

theorem characteriseRAO_length_mismatch:
  assumes "heave \<noteq> []" "elevation \<noteq> []" "length heave \<noteq> length elevation"
    and "granted pf h (Calloc (length heave) Float)"
    and "granted pf (h @ [Calloc (length heave) Float]) (Calloc (length elevation) Float)"
  shows "characteriseRAO pf RAOBuffer (Some heave) (Some elevation)
      heaveMeasurementUncertainty waveElevationMeasurementUncertainty measurementPeriod h =
    Some (Some LengthMismatch, RAOBuffer,
          h @ [Calloc (length heave) Float, Calloc (length elevation) Float])"
  using assms
  by (simp add: characteriseRAO_def readFloatsFromFileToHeapBuffer_def calloc_def emptyBuffer_def)

theorem characteriseRAO_length_mismatch_witness:
  "characteriseRAO idealPlatform emptyBuffer (Some [Fin 1, Fin 2, Fin 1, Fin 0])
      (Some [Fin (1 / 2), Fin 1, Fin (1 / 2)]) (Fin 0) (Fin 0) (Fin 1) [] =
    Some (Some LengthMismatch, emptyBuffer, [Calloc 4 Float, Calloc 3 Float])"
  using characteriseRAO_length_mismatch [of "[Fin 1, Fin 2, Fin 1, Fin 0]"
      "[Fin (1 / 2), Fin 1, Fin (1 / 2)]" idealPlatform "[]" emptyBuffer "Fin 0" "Fin 0" "Fin 1"]
  by (simp add: idealPlatform_simps)






subsection \<open>Claims about the length of the position series\<close>

lemma rd_take:
  assumes "take N x = take N y" "i < N"
  shows "rd x i = rd y i"
proof -
  have "rd x i = rd (take N x) i" for x :: "'a list"
    using assms(2) by (simp add: rd_def)
  with assms(1) show ?thesis
    by metis
qed

lemma fft_reads_first_N:
  assumes "take N x = take N y"
  shows "fft pf F x N h = fft pf F y N h"
proof -
  have loop: "for_loop N
      (\<lambda>i blk. do { xi \<leftarrow> rd x i; c \<leftarrow> rd blk i; wr blk i (c\<lparr>realPart := xi\<rparr>) }) =
    for_loop N
      (\<lambda>i (blk :: 'a Complex list). do { xi \<leftarrow> rd y i; c \<leftarrow> rd blk i; wr blk i (c\<lparr>realPart := xi\<rparr>) })"
    by (rule ext, rule for_loop_cong) (simp add: rd_take [OF assms])
  show ?thesis
    unfolding fft_def loop ..
qed

lemma calculatePowerSpectrum_reads_first_N:
  assumes "take N x = take N y"
  shows "calculatePowerSpectrum pf S x N h = calculatePowerSpectrum pf S y N h"
  unfolding calculatePowerSpectrum_def fft_reads_first_N [OF assms] ..

lemma subtractMean_bufSize: "subtractMean pf buf = Some buf' \<Longrightarrow> bufSize buf' = bufSize buf"
  by (auto simp: subtractMean_def Let_def split: bind_splits)

lemma applyUncertainty_bufSize:
  "applyUncertainty pf buf u = Some buf' \<Longrightarrow> bufSize buf' = bufSize buf"
  by (auto simp: applyUncertainty_def split: bind_splits)

lemma numericalIntegration_bufSize:
  "numericalIntegration pf buf dt = Some buf' \<Longrightarrow> bufSize buf' = bufSize buf"
  by (auto simp: numericalIntegration_def split: bind_splits dest: subtractMean_bufSize)

lemma positionSeries_bufSize:
  "positionSeries pf a res dt = Some p \<Longrightarrow> bufSize p = length a"
  by (auto simp: positionSeries_def split: bind_splits
      dest!: applyUncertainty_bufSize numericalIntegration_bufSize)

lemma extendHeapBuffer_from_empty_bufSize:
  "extendHeapBuffer pf \<lparr>heapPointer = None, bufSize = 0\<rparr> n h = (0, b, h') \<Longrightarrow> bufSize b = n"
  by (auto simp: extendHeapBuffer_def split: if_splits prod.splits option.splits)










lemma positionSeries_example_2: "positionSeries idealPlatform [Fin 0, Fin 0, Fin 0] (Fin 0) (Fin 1) =
    Some \<lparr>heapPointer = Some [Fin 0, Fin 0, Fin 0], bufSize = 3\<rparr>"
  by (simp add: eval_simps)



lemma estimateWaveSpectrum_later_samples_irrelevant:
  assumes p1: "positionSeries pf a1 res dt = Some p1"
    and p2: "positionSeries pf a2 res dt = Some p2"
    and len: "length a1 = length a2"
    and rao: "bufSize RAOBuffer \<le> length a1"
    and eq: "take (bufSize RAOBuffer) (cells (heapPointer p1)) =
      take (bufSize RAOBuffer) (cells (heapPointer p2))"
  shows "estimateWaveSpectrum pf ws RAOBuffer (Some a1) res dt h =
    estimateWaveSpectrum pf ws RAOBuffer (Some a2) res dt h"
proof (cases "a1 = []")
  case True
  with len show ?thesis
    by simp
next
  case False
  with len have ne: "a1 \<noteq> []" "a2 \<noteq> []"
    by auto
  from p1 obtain b1 where b1:
    "applyUncertainty pf \<lparr>heapPointer = Some a1, bufSize = length a1\<rparr> res = Some b1"
    "numericalIntegration pf b1 dt = Some p1"
    by (auto simp: positionSeries_def split: bind_splits)
  from p2 obtain b2 where b2:
    "applyUncertainty pf \<lparr>heapPointer = Some a2, bufSize = length a2\<rparr> res = Some b2"
    "numericalIntegration pf b2 dt = Some p2"
    by (auto simp: positionSeries_def split: bind_splits)
  from p1 p2 len have sz: "bufSize p1 = length a1" "bufSize p2 = length a1"
    by (simp_all add: positionSeries_bufSize)
  note reads = calculatePowerSpectrum_reads_first_N
    [of "bufSize RAOBuffer" "cells (heapPointer p1)" "cells (heapPointer p2)", OF eq]
  show ?thesis
  proof (cases "granted pf h (Calloc (length a1) Float)")
    case False
    with ne len show ?thesis
      by (simp add: estimateWaveSpectrum_def readFloatsFromFileToHeapBuffer_def calloc_def
          emptyBuffer_def)
  next
    case True
    with ne len b1 b2 sz rao show ?thesis
      by (auto simp: estimateWaveSpectrum_def readFloatsFromFileToHeapBuffer_def calloc_def
          emptyBuffer_def reads
          split: prod.splits dest!: extendHeapBuffer_from_empty_bufSize)
  qed
qed









end
